theory Spec2Isabelle
  imports Main "HOL-Library.Word"
begin

section \<open>Values, errors and native results\<close>

text \<open>
  The filesystem adapter of the mobile client is a TypeScript class hierarchy
  (\<open>AbstractCordovaFilesystem\<close>, \<open>AndroidFilesystem\<close>, \<open>IOSFilesystem\<close>) over the
  Cordova plugins \<open>File\<close>, \<open>FileOpener\<close> and \<open>DocumentViewer\<close>. The plugins are opaque:
  they are parameters of the model. Asynchronous methods are modelled sequentially, one
  \<open>await\<close> after the other, with a rejected promise as an error value.
\<close>

text \<open>A JavaScript value as far as the adapter inspects one: \<open>e.status === 9\<close> compares
  strictly, so the number 9 and the string "9" differ.\<close>

datatype jsvalue = Undefined | Num int | Str string

text \<open>What a plugin rejects its promise with: an object of the plugin's own, never an
  instance of the application's error classes. Only its \<open>status\<close> field is ever read.\<close>

datatype NativeFailure = NativeFailure (status: jsvalue) (message: string)

text \<open>Everything the adapter can throw or pass on.\<close>

datatype exn =
    IOError string
  | CantOpenFileTypeException string
  | Error string
  | NativeError NativeFailure

text \<open>Modelled from the spec: the classes \<open>IOError\<close> and \<open>CantOpenFileTypeException\<close> are
  declared outside the sources read here; as the spec's error kinds they carry a message
  and no \<open>status\<close> property, so reading \<open>e.status\<close> on them gives \<open>undefined\<close>.\<close>

fun status_of :: "exn \<Rightarrow> jsvalue" where
  "status_of (NativeError f) = status f"
| "status_of (IOError m) = Undefined"
| "status_of (CantOpenFileTypeException m) = Undefined"
| "status_of (Error m) = Undefined"

section \<open>Strings and arrays of JavaScript\<close>

text \<open>\<open>s.split(sep)\<close> for a one-character separator: never the empty array; the empty
  string splits into one empty segment. A character other than the separator joins the
  first segment of the rest (the rest always has one, so the \<open>[]\<close> case is never taken).\<close>

fun js_split :: "char \<Rightarrow> string \<Rightarrow> string list" where
  "js_split sep [] = [[]]"
| "js_split sep (c # cs) =
     (if c = sep then [] # js_split sep cs
      else (case js_split sep cs of [] \<Rightarrow> [[c]] | seg # segs \<Rightarrow> (c # seg) # segs))"

text \<open>\<open>xs.join(sep)\<close>.\<close>

fun js_join :: "string \<Rightarrow> string list \<Rightarrow> string" where
  "js_join sep [] = []"
| "js_join sep [x] = x"
| "js_join sep (x # y # ys) = x @ sep @ js_join sep (y # ys)"

text \<open>\<open>xs.pop()\<close>: the last element (or \<open>undefined\<close> on the empty array) and the array
  that is left.\<close>

definition js_pop :: "'a list \<Rightarrow> 'a option \<times> 'a list" where
  "js_pop xs = (if xs = [] then (None, []) else (Some (last xs), butlast xs))"

section \<open>The native capabilities\<close>

datatype DirectoryEntry = DirectoryEntry string
datatype FileEntry = FileEntry (toURL: string)
datatype RemoveResult = RemoveResult bool string

record Flags =
  create :: bool
  exclusive :: bool

record IWriteOptions =
  replace :: bool

type_synonym ArrayBuffer = "8 word list"

text \<open>The \<open>File\<close> plugin over a device state \<open>'s\<close>: two directory constants and the
  seven calls the adapter makes. A call returns its result, or the failure its promise is
  rejected with, and the device state after it.\<close>

record 's File =
  externalApplicationStorageDirectory :: string
  dataDirectory :: string
  removeRecursively :: "string \<Rightarrow> string \<Rightarrow> 's \<Rightarrow> (NativeFailure + RemoveResult) \<times> 's"
  checkFile :: "string \<Rightarrow> string \<Rightarrow> 's \<Rightarrow> (NativeFailure + bool) \<times> 's"
  checkDir :: "string \<Rightarrow> string \<Rightarrow> 's \<Rightarrow> (NativeFailure + bool) \<times> 's"
  resolveDirectoryUrl :: "string \<Rightarrow> 's \<Rightarrow> (NativeFailure + DirectoryEntry) \<times> 's"
  File_getDirectory ::
    "DirectoryEntry \<Rightarrow> string \<Rightarrow> Flags \<Rightarrow> 's \<Rightarrow> (NativeFailure + DirectoryEntry) \<times> 's"
  File_getFile ::
    "DirectoryEntry \<Rightarrow> string \<Rightarrow> Flags \<Rightarrow> 's \<Rightarrow> (NativeFailure + FileEntry) \<times> 's"
  writeFile ::
    "string \<Rightarrow> string \<Rightarrow> ArrayBuffer \<Rightarrow> IWriteOptions \<Rightarrow> 's \<Rightarrow> (NativeFailure + FileEntry) \<times> 's"

text \<open>\<open>FileOpener.open(path, mimeType)\<close>.\<close>

type_synonym 's FileOpenerOriginal = "string \<Rightarrow> string \<Rightarrow> 's \<Rightarrow> (NativeFailure + unit) \<times> 's"

section \<open>The adapters\<close>

record PathTuple =
  absoluteBasePath :: string
  target :: string

datatype 's Filesystem =
    AndroidFilesystem "'s File" "'s FileOpenerOriginal"
  | IOSFilesystem "'s File"

text \<open>The field \<open>this.file\<close>.\<close>

fun file_of :: "'s Filesystem \<Rightarrow> 's File" where
  "file_of (AndroidFilesystem f fileOpener) = f"
| "file_of (IOSFilesystem f) = f"

fun getFilesystemBasePath :: "'s Filesystem \<Rightarrow> string" where
  "getFilesystemBasePath (AndroidFilesystem f fileOpener) = externalApplicationStorageDirectory f"
| "getFilesystemBasePath (IOSFilesystem f) = dataDirectory f"

text \<open>The message of the \<open>IOError\<close> of \<open>getAbsolutePathInfo\<close>; \<open>shown\<close> is the popped
  segment as the template literal prints it.\<close>

definition invalid_path_message :: "string \<Rightarrow> string \<Rightarrow> string" where
  "invalid_path_message path shown =
     ''Invalid path, unable to extract directory/file name. Got path \"'' @ path @
     ''\" and directory/file \"'' @ shown @ ''\".''"

text \<open>\<open>getAbsolutePathInfo\<close>: the base directory followed by the segments of the path,
  the last one popped as the target, and the guard
  \<open>typeof targetName !== "string" || targetName.length > 0\<close> as it is written.\<close>

definition getAbsolutePathInfo :: "'s Filesystem \<Rightarrow> string \<Rightarrow> exn + PathTuple" where
  "getAbsolutePathInfo this path =
     (let pathFolders = getFilesystemBasePath this # js_split (CHR ''/'') path;
          (targetName, pathFolders') = js_pop pathFolders
      in case targetName of
           None \<Rightarrow> Inl (IOError (invalid_path_message path ''undefined''))
         | Some name \<Rightarrow>
             if length name > 0 then Inl (IOError (invalid_path_message path name))
             else Inr \<lparr>absoluteBasePath = js_join ''/'' pathFolders', target = name\<rparr>)"

section \<open>Asynchronous methods as state passing\<close>

text \<open>Every call into a plugin is recorded, with its arguments, in the order it is made.
  Reading one of the two directory constants of the \<open>File\<close> plugin is not a call and is
  not recorded.\<close>

datatype native_call =
    RemoveRecursively string string
  | CheckFile string string
  | CheckDir string string
  | ResolveDirectoryUrl string
  | GetDirectory DirectoryEntry string Flags
  | GetFile DirectoryEntry string Flags
  | WriteFile string string ArrayBuffer IWriteOptions
  | FileOpenerOpen string string
  | PreviewFileFromUrlOrPath string jsvalue

text \<open>The world of a method: the native calls made so far and the device state.\<close>

type_synonym 's world = "native_call list \<times> 's"

type_synonym ('a, 's) async = "'s world \<Rightarrow> (exn + 'a) \<times> 's world"

text \<open>\<open>const x = await m; k(x)\<close>: a rejection of \<open>m\<close> leaves the method at once.\<close>

definition await :: "('a, 's) async \<Rightarrow> ('a \<Rightarrow> ('b, 's) async) \<Rightarrow> ('b, 's) async" where
  "await m k = (\<lambda>w. case m w of (Inl e, w') \<Rightarrow> (Inl e, w') | (Inr a, w') \<Rightarrow> k a w')"

text \<open>A computation of the adapter's own that touches no plugin.\<close>

definition settled :: "exn + 'a \<Rightarrow> ('a, 's) async" where
  "settled r = (\<lambda>w. (r, w))"

text \<open>A call into a plugin: recorded, run on the device state, its failure wrapped.\<close>

definition native :: "native_call \<Rightarrow> ('s \<Rightarrow> (NativeFailure + 'a) \<times> 's) \<Rightarrow> ('a, 's) async" where
  "native c f = (\<lambda>(calls, s). case f s of
       (Inl failure, s') \<Rightarrow> (Inl (NativeError failure), (calls @ [c], s'))
     | (Inr a, s') \<Rightarrow> (Inr a, (calls @ [c], s')))"

section \<open>The common operations of \<open>AbstractCordovaFilesystem\<close>\<close>

definition delete :: "'s Filesystem \<Rightarrow> string \<Rightarrow> (RemoveResult, 's) async" where
  "delete this path =
     await (settled (getAbsolutePathInfo this path)) (\<lambda>pathInfo.
       native (RemoveRecursively (absoluteBasePath pathInfo) (target pathInfo))
         (removeRecursively (file_of this) (absoluteBasePath pathInfo) (target pathInfo)))"

text \<open>\<open>(await checkFile(..)) || checkDir(..)\<close>: \<open>checkDir\<close> is asked only when \<open>checkFile\<close>
  answered \<open>false\<close>.\<close>

definition exists :: "'s Filesystem \<Rightarrow> string \<Rightarrow> (bool, 's) async" where
  "exists this path =
     await (settled (getAbsolutePathInfo this path)) (\<lambda>pathInfo.
       await (native (CheckFile (absoluteBasePath pathInfo) (target pathInfo))
                (checkFile (file_of this) (absoluteBasePath pathInfo) (target pathInfo)))
         (\<lambda>isFile.
            if isFile then settled (Inr True)
            else native (CheckDir (absoluteBasePath pathInfo) (target pathInfo))
                   (checkDir (file_of this) (absoluteBasePath pathInfo) (target pathInfo))))"

definition lookup_flags :: Flags where
  "lookup_flags = \<lparr>create = False, exclusive = False\<rparr>"

definition getDirectory :: "'s Filesystem \<Rightarrow> string \<Rightarrow> (DirectoryEntry, 's) async" where
  "getDirectory this path =
     await (settled (getAbsolutePathInfo this path)) (\<lambda>pathInfo.
       await (native (ResolveDirectoryUrl (absoluteBasePath pathInfo))
                (resolveDirectoryUrl (file_of this) (absoluteBasePath pathInfo)))
         (\<lambda>dir. native (GetDirectory dir (target pathInfo) lookup_flags)
                   (File_getDirectory (file_of this) dir (target pathInfo) lookup_flags)))"

definition getFile :: "'s Filesystem \<Rightarrow> string \<Rightarrow> (FileEntry, 's) async" where
  "getFile this path =
     await (settled (getAbsolutePathInfo this path)) (\<lambda>pathInfo.
       await (getDirectory this (absoluteBasePath pathInfo))
         (\<lambda>dir. native (GetFile dir (target pathInfo) lookup_flags)
                   (File_getFile (file_of this) dir (target pathInfo) lookup_flags)))"

definition save :: "'s Filesystem \<Rightarrow> string \<Rightarrow> ArrayBuffer \<Rightarrow> (FileEntry, 's) async" where
  "save this path data =
     await (settled (getAbsolutePathInfo this path)) (\<lambda>pathInfo.
       native (WriteFile (absoluteBasePath pathInfo) (target pathInfo) data \<lparr>replace = True\<rparr>)
         (writeFile (file_of this) (absoluteBasePath pathInfo) (target pathInfo) data
            \<lparr>replace = True\<rparr>))"

section \<open>\<open>AndroidFilesystem.open\<close>\<close>

text \<open>\<open>try { body } catch (e) { handler }\<close>.\<close>

definition try_catch :: "('a, 's) async \<Rightarrow> (exn \<Rightarrow> ('a, 's) async) \<Rightarrow> ('a, 's) async" where
  "try_catch body handler =
     (\<lambda>w. case body w of (Inl e, w') \<Rightarrow> handler e w' | (Inr a, w') \<Rightarrow> (Inr a, w'))"

definition android_unsupported_message :: string where
  "android_unsupported_message =
     ''Unable to open existing file on Android because the file type is not supported.''"

text \<open>The body of the \<open>try\<close>: resolve the path, then hand
  \<open>`${absoluteBasePath}/${target}`\<close> and the type to the file opener. The calls to the
  logger are left out: the logger is an external collaborator that neither fails nor
  touches the device.\<close>

definition AndroidFilesystem_open_attempt ::
  "'s Filesystem \<Rightarrow> 's FileOpenerOriginal \<Rightarrow> string \<Rightarrow> string \<Rightarrow> (unit, 's) async" where
  "AndroidFilesystem_open_attempt this fileOpener path type =
     await (settled (getAbsolutePathInfo this path)) (\<lambda>pathInfo.
       native (FileOpenerOpen (absoluteBasePath pathInfo @ ''/'' @ target pathInfo) type)
         (fileOpener (absoluteBasePath pathInfo @ ''/'' @ target pathInfo) type))"

text \<open>\<open>open(path, type = "")\<close> of the Android adapter; \<open>None\<close> is an omitted type.\<close>

definition AndroidFilesystem_open ::
  "'s File \<Rightarrow> 's FileOpenerOriginal \<Rightarrow> string \<Rightarrow> string option \<Rightarrow> (unit, 's) async" where
  "AndroidFilesystem_open f fileOpener path type =
     try_catch
       (AndroidFilesystem_open_attempt (AndroidFilesystem f fileOpener) fileOpener path
          (case type of None \<Rightarrow> [] | Some t \<Rightarrow> t))
       (\<lambda>e. if status_of e = Num 9
            then settled (Inl (CantOpenFileTypeException android_unsupported_message))
            else settled (Inl e))"

section \<open>\<open>IOSFilesystem.open\<close>\<close>

text \<open>The decimal digits of a number, for template literals. \<open>Num n\<close> stands for an
  integer-valued number; its digits are what JavaScript prints for a magnitude below
  \<open>10^21\<close>, which covers the error codes of a plugin. From \<open>10^21\<close> on JavaScript
  prints exponent notation, which is not modelled: there the text of a message differs,
  and nothing else.\<close>

fun string_of_nat :: "nat \<Rightarrow> string" where
  "string_of_nat n =
     (if n < 10 then [char_of (48 + n)]
      else string_of_nat (n div 10) @ [char_of (48 + n mod 10)])"

declare string_of_nat.simps [simp del]

definition js_to_string :: "jsvalue \<Rightarrow> string" where
  "js_to_string v =
     (case v of
        Undefined \<Rightarrow> ''undefined''
      | Str s \<Rightarrow> s
      | Num n \<Rightarrow> if n < 0 then ''-'' @ string_of_nat (nat (- n)) else string_of_nat (nat n))"

definition ios_error_message :: "jsvalue \<Rightarrow> string" where
  "ios_error_message errorCode =
     ''Unable to open existing file on iOS with error code: \"'' @ js_to_string errorCode @ ''\"''"

text \<open>A promise is unsettled until it is fulfilled or rejected, and settles once.\<close>

datatype 'a promise = Unsettled | Fulfilled 'a | Rejected exn

definition resolve_promise :: "'a \<Rightarrow> 'a promise \<Rightarrow> 'a promise" where
  "resolve_promise a p = (case p of Unsettled \<Rightarrow> Fulfilled a | Fulfilled b \<Rightarrow> p | Rejected e \<Rightarrow> p)"

definition reject_promise :: "exn \<Rightarrow> 'a promise \<Rightarrow> 'a promise" where
  "reject_promise e p = (case p of Unsettled \<Rightarrow> Rejected e | Fulfilled b \<Rightarrow> p | Rejected d \<Rightarrow> p)"

text \<open>\<open>new Promise(executor)\<close>: the executor runs at once; an exception that leaves it
  rejects the promise.\<close>

definition new_Promise :: "('a promise \<Rightarrow> exn + 'a promise) \<Rightarrow> 'a promise" where
  "new_Promise executor =
     (case executor Unsettled of Inl e \<Rightarrow> reject_promise e Unsettled | Inr p \<Rightarrow> p)"

text \<open>A callback that the host runs in a later turn of the event loop, when the executor
  has long returned: an exception that leaves the callback goes to the host's dispatcher,
  and the promise stays as it was.\<close>

definition later_turn :: "('a promise \<Rightarrow> exn + 'a promise) \<Rightarrow> 'a promise \<Rightarrow> 'a promise" where
  "later_turn callback p = (case callback p of Inl e \<Rightarrow> p | Inr p' \<Rightarrow> p')"

text \<open>The document viewer is handed a success and a failure callback. It is opaque; what
  the model needs of it is which callback it runs, with what argument, and when: before
  the native call returns, in a later turn, or never.\<close>

datatype viewer_callback = SuccessCallback string | FailureCallback jsvalue

datatype viewer_reply =
    CallsBackAtOnce viewer_callback
  | CallsBackLater viewer_callback
  | NoCallback

type_synonym 's DocumentViewer = "string \<Rightarrow> jsvalue \<Rightarrow> 's \<Rightarrow> viewer_reply \<times> 's"

text \<open>The two callbacks of \<open>previewFileFromUrlOrPath\<close>: the first calls \<open>resolve()\<close>, the
  second throws.\<close>

fun run_callback :: "viewer_callback \<Rightarrow> unit promise \<Rightarrow> exn + unit promise" where
  "run_callback (SuccessCallback msg) p = Inr (resolve_promise () p)"
| "run_callback (FailureCallback errorCode) p =
     Inl (CantOpenFileTypeException (ios_error_message errorCode))"

definition previewFileFromUrlOrPath ::
  "'s DocumentViewer \<Rightarrow> string \<Rightarrow> jsvalue \<Rightarrow> 's world \<Rightarrow> unit promise \<times> 's world" where
  "previewFileFromUrlOrPath window url type =
     (\<lambda>(calls, s). case window url type s of (reply, s') \<Rightarrow>
        (case reply of
           CallsBackAtOnce cb \<Rightarrow> new_Promise (run_callback cb)
         | CallsBackLater cb \<Rightarrow> later_turn (run_callback cb) (new_Promise Inr)
         | NoCallback \<Rightarrow> new_Promise Inr,
         (calls @ [PreviewFileFromUrlOrPath url type], s')))"

text \<open>\<open>await p\<close> on a promise: its value, its rejection, or no return at all
  (\<open>None\<close>) while it stays unsettled.\<close>

definition await_promise :: "'a promise \<Rightarrow> (exn + 'a) option" where
  "await_promise p =
     (case p of Unsettled \<Rightarrow> None | Fulfilled a \<Rightarrow> Some (Inr a) | Rejected e \<Rightarrow> Some (Inl e))"

text \<open>\<open>open(path, type?)\<close> of the iOS adapter: the type is not passed on, so the viewer
  receives \<open>undefined\<close>.\<close>

definition IOSFilesystem_open ::
  "'s DocumentViewer \<Rightarrow> 's File \<Rightarrow> string \<Rightarrow> string option \<Rightarrow> 's world
     \<Rightarrow> (exn + unit) option \<times> 's world" where
  "IOSFilesystem_open window f path type =
     (\<lambda>w. case getFile (IOSFilesystem f) path w of
        (Inl e, w') \<Rightarrow> (Some (Inl e), w')
      | (Inr entry, w') \<Rightarrow>
          (case previewFileFromUrlOrPath window (toURL entry) Undefined w' of
             (p, w'') \<Rightarrow> (await_promise p, w'')))"

text \<open>\<open>open\<close> as the interface has it, dispatched on the adapter.\<close>

fun open_file ::
  "'s DocumentViewer \<Rightarrow> 's Filesystem \<Rightarrow> string \<Rightarrow> string option \<Rightarrow> 's world
     \<Rightarrow> (exn + unit) option \<times> 's world" where
  "open_file window (AndroidFilesystem f fileOpener) path type w =
     (case AndroidFilesystem_open f fileOpener path type w of (r, w') \<Rightarrow> (Some r, w'))"
| "open_file window (IOSFilesystem f) path type w = IOSFilesystem_open window f path type w"

section \<open>The factory\<close>

text \<open>The platform service, as far as it is used: the predicate \<open>platform.is(name)\<close>.\<close>

datatype Platform = Platform (platform_is: "string \<Rightarrow> bool")

definition no_implementation_message :: string where
  "no_implementation_message =
     ''Cordova filesystem factory found no suitable implementation for the current platform.''"

definition CORDOVA_FILESYSTEM_FACTORY ::
  "Platform \<Rightarrow> 's File \<Rightarrow> 's FileOpenerOriginal \<Rightarrow> exn + 's Filesystem" where
  "CORDOVA_FILESYSTEM_FACTORY platform f fileOpener2 =
     (if platform_is platform ''android'' then Inr (AndroidFilesystem f fileOpener2)
      else if platform_is platform ''ios'' then Inr (IOSFilesystem f)
      else Inl (Error no_implementation_message))"

section \<open>A small device to run the adapters on\<close>

text \<open>A device whose state is the list of stored files (directory, name, content).
  Directories exist as far as a stored file lies in them; the lookups of entries by URL
  always answer. It is one possible plugin behaviour among many, used to run the
  definitions on concrete inputs.\<close>

type_synonym demo_device = "(string \<times> string \<times> ArrayBuffer) list"

definition demo_stored :: "string \<Rightarrow> string \<Rightarrow> demo_device \<Rightarrow> bool" where
  "demo_stored dir name s = list_ex (\<lambda>(d, n, c). d = dir \<and> n = name) s"

definition demo_not_found :: NativeFailure where
  "demo_not_found = NativeFailure (Num 1) ''NOT_FOUND_ERR''"

definition demo_File :: "demo_device File" where
  "demo_File =
     \<lparr>externalApplicationStorageDirectory = ''/root'',
      dataDirectory = ''/data'',
      removeRecursively = (\<lambda>dir name s.
        if demo_stored dir name s
        then (Inr (RemoveResult True (dir @ ''/'' @ name)),
              filter (\<lambda>(d, n, c). \<not> (d = dir \<and> n = name)) s)
        else (Inl demo_not_found, s)),
      checkFile = (\<lambda>dir name s. (Inr (demo_stored dir name s), s)),
      checkDir = (\<lambda>dir name s. (Inr (list_ex (\<lambda>(d, n, c). d = dir @ ''/'' @ name) s), s)),
      resolveDirectoryUrl = (\<lambda>url s. (Inr (DirectoryEntry url), s)),
      File_getDirectory = (\<lambda>dir name flags s.
        case dir of DirectoryEntry url \<Rightarrow> (Inr (DirectoryEntry (url @ ''/'' @ name)), s)),
      File_getFile = (\<lambda>dir name flags s.
        case dir of DirectoryEntry url \<Rightarrow> (Inr (FileEntry (url @ ''/'' @ name)), s)),
      writeFile = (\<lambda>dir name data opts s.
        (Inr (FileEntry (dir @ ''/'' @ name)),
         (dir, name, data) # filter (\<lambda>(d, n, c). \<not> (d = dir \<and> n = name)) s))\<rparr>"

text \<open>A file opener that knows PDF only: any other type is refused with status 9; a
  path at which no file is stored is refused with status 1.\<close>

definition demo_fileOpener :: "demo_device FileOpenerOriginal" where
  "demo_fileOpener path type s =
     (if type \<noteq> ''application/pdf'' then (Inl (NativeFailure (Num 9) ''Activity not found''), s)
      else if \<not> list_ex (\<lambda>(d, n, c). d @ ''/'' @ n = path) s
      then (Inl (NativeFailure (Num 1) ''File not found''), s)
      else (Inr (), s))"

text \<open>A document viewer that answers in a later turn of the event loop, as a plugin
  behind the Cordova bridge does: it previews a file that is stored at the URL and
  reports error code 53 for any other URL.\<close>

definition demo_viewer :: "demo_device DocumentViewer" where
  "demo_viewer url type s =
     (if list_ex (\<lambda>(d, n, c). d @ ''/'' @ n = url) s
      then (CallsBackLater (SuccessCallback ''ok''), s)
      else (CallsBackLater (FailureCallback (Num 53)), s))"

definition demo_android :: "demo_device Filesystem" where
  "demo_android = AndroidFilesystem demo_File demo_fileOpener"

definition demo_ios :: "demo_device Filesystem" where
  "demo_ios = IOSFilesystem demo_File"

section \<open>Facts about strings\<close>

lemma js_split_not_Nil: "js_split sep s \<noteq> []"
  by (induction s) (auto split: list.splits)

section \<open>Path resolution\<close>

text \<open>What \<open>getAbsolutePathInfo\<close> computes, in one equation: the array is never empty, so
  the popped target is always a string, and the guard lets exactly the empty target
  through.\<close>

lemma getAbsolutePathInfo_eq:
  "getAbsolutePathInfo this path =
     (if last (js_split (CHR ''/'') path) = []
      then Inr \<lparr>absoluteBasePath =
                  js_join ''/'' (getFilesystemBasePath this # butlast (js_split (CHR ''/'') path)),
                target = []\<rparr>
      else Inl (IOError (invalid_path_message path (last (js_split (CHR ''/'') path)))))"
  by (simp add: getAbsolutePathInfo_def js_pop_def js_split_not_Nil)

lemma getAbsolutePathInfo_raises_IOError:
  "getAbsolutePathInfo this path = Inl e \<Longrightarrow> \<exists>m. e = IOError m"
  by (auto simp: getAbsolutePathInfo_eq split: if_splits)

lemma demo_android_base: "getFilesystemBasePath demo_android = ''/root''"
  by (simp add: demo_android_def demo_File_def)

lemma demo_ios_base: "getFilesystemBasePath demo_ios = ''/data''"
  by (simp add: demo_ios_def demo_File_def)

text \<open>Claim C1. Path resolution should raise exactly when the terminal segment is
  missing or blank and return a pair whenever it is a non-empty string. The code does
  the reverse: on \<open>docs/report.pdf\<close>, whose terminal segment is \<open>report.pdf\<close>, it raises
  the \<open>IOError\<close>, and on \<open>docs/\<close>, whose terminal segment is blank, it returns a pair
  with the empty target.\<close>

theorem getAbsolutePathInfo_guard_inverted:
  "getAbsolutePathInfo demo_android ''docs/report.pdf'' =
     Inl (IOError (invalid_path_message ''docs/report.pdf'' ''report.pdf'')) \<and>
   getAbsolutePathInfo demo_android ''docs/'' =
     Inr \<lparr>absoluteBasePath = ''/root/docs'', target = []\<rparr>"
  by (simp add: getAbsolutePathInfo_eq demo_android_base)

text \<open>Claim C2. Resolving \<open>a/b/c\<close> on the base directory \<open>/root\<close> should give the pair
  \<open>/root/a/b\<close>, \<open>c\<close>. On either adapter the code raises the \<open>IOError\<close> instead, naming
  \<open>c\<close> as the segment it could not accept.\<close>

theorem getAbsolutePathInfo_a_b_c_raises:
  "getAbsolutePathInfo
     (AndroidFilesystem (f\<lparr>externalApplicationStorageDirectory := ''/root''\<rparr>) fileOpener)
     ''a/b/c'' = Inl (IOError (invalid_path_message ''a/b/c'' ''c'')) \<and>
   getAbsolutePathInfo (IOSFilesystem (f\<lparr>dataDirectory := ''/root''\<rparr>)) ''a/b/c'' =
     Inl (IOError (invalid_path_message ''a/b/c'' ''c''))"
  by (simp add: getAbsolutePathInfo_eq)

text \<open>Claim C3. For every path with a non-empty terminal segment, resolution should
  succeed with a base path that does not end in a slash and a non-empty target. In the
  code, resolution of every such path fails: it raises the \<open>IOError\<close> that names the
  terminal segment, so no pair is returned for any of them.\<close>

theorem getAbsolutePathInfo_nonempty_target_raises:
  "last (js_split (CHR ''/'') path) \<noteq> [] \<Longrightarrow>
   getAbsolutePathInfo this path =
     Inl (IOError (invalid_path_message path (last (js_split (CHR ''/'') path))))"
  by (simp add: getAbsolutePathInfo_eq)

theorem getAbsolutePathInfo_nonempty_target_raises_witness:
  "last (js_split (CHR ''/'') ''a/report.pdf'') = ''report.pdf'' \<and>
   getAbsolutePathInfo demo_ios ''a/report.pdf'' =
     Inl (IOError (invalid_path_message ''a/report.pdf'' ''report.pdf''))"
  using getAbsolutePathInfo_nonempty_target_raises [of "''a/report.pdf''" demo_ios] by simp

section \<open>Facts about the asynchronous layer\<close>

lemma await_Inl: "await (settled (Inl e)) k = settled (Inl e)"
  by (rule ext) (simp add: await_def settled_def)

lemma await_Inr: "await (settled (Inr a)) k = k a"
  by (rule ext) (simp add: await_def settled_def)

lemma native_run:
  "native c f (calls, s) =
     (case f s of (r, s') \<Rightarrow> (case r of Inl failure \<Rightarrow> Inl (NativeError failure) | Inr a \<Rightarrow> Inr a,
                             (calls @ [c], s')))"
  by (simp add: native_def split: prod.splits sum.splits)

lemma native_raises_NativeError:
  "native c f w = (Inl e, w') \<Longrightarrow> \<exists>failure. e = NativeError failure"
  by (cases w) (auto simp: native_run split: prod.splits sum.splits)

lemma demo_android_file: "file_of demo_android = demo_File"
  by (simp add: demo_android_def)

lemma demo_ios_file: "file_of demo_ios = demo_File"
  by (simp add: demo_ios_def)

section \<open>\<open>exists\<close> and \<open>save\<close>\<close>

lemma exists_resolved:
  assumes "getAbsolutePathInfo this path = Inr pathInfo"
  shows "exists this path (calls, s) =
     (case checkFile (file_of this) (absoluteBasePath pathInfo) (target pathInfo) s of
        (Inl failure, s1) \<Rightarrow>
          (Inl (NativeError failure),
           (calls @ [CheckFile (absoluteBasePath pathInfo) (target pathInfo)], s1))
      | (Inr True, s1) \<Rightarrow>
          (Inr True, (calls @ [CheckFile (absoluteBasePath pathInfo) (target pathInfo)], s1))
      | (Inr False, s1) \<Rightarrow>
          native (CheckDir (absoluteBasePath pathInfo) (target pathInfo))
            (checkDir (file_of this) (absoluteBasePath pathInfo) (target pathInfo))
            (calls @ [CheckFile (absoluteBasePath pathInfo) (target pathInfo)], s1))"
  using assms
  by (simp add: exists_def await_Inr await_def native_run settled_def
           split: prod.splits sum.splits bool.splits)

text \<open>Claim C4. For every path, \<open>exists\<close> should return true if a file or a
  directory is present at the resolved location, and false, not an error, if neither is.
  On the code it does neither for a path with a name in it: \<open>exists\<close> starts with path
  resolution, whose guard rejects every non-empty name. With a file stored as \<open>c\<close> in
  \<open>/root/a/b\<close>, which the plugin's \<open>checkFile\<close> reports, \<open>exists\<close> of \<open>a/b/c\<close>
  raises the \<open>IOError\<close> of the guard instead of returning true; with nothing stored,
  where both checks of the plugin report none, it raises the same error instead of
  returning false. In both runs no check of the plugin is ever asked.\<close>

theorem exists_raises_on_stored_file:
  "checkFile demo_File ''/root/a/b'' ''c'' [(''/root/a/b'', ''c'', [1, 2, 3])] =
     (Inr True, [(''/root/a/b'', ''c'', [1, 2, 3])]) \<and>
   exists demo_android ''a/b/c'' ([], [(''/root/a/b'', ''c'', [1, 2, 3])]) =
     (Inl (IOError (invalid_path_message ''a/b/c'' ''c'')),
      ([], [(''/root/a/b'', ''c'', [1, 2, 3])])) \<and>
   checkFile demo_File ''/root/a/b'' ''c'' [] = (Inr False, []) \<and>
   checkDir demo_File ''/root/a/b'' ''c'' [] = (Inr False, []) \<and>
   exists demo_android ''a/b/c'' ([], []) =
     (Inl (IOError (invalid_path_message ''a/b/c'' ''c'')), ([], []))"
  by (simp add: exists_def getAbsolutePathInfo_eq demo_android_base await_def settled_def
        demo_File_def demo_stored_def)

text \<open>Where path resolution does succeed, \<open>exists\<close> combines the answers of the plugin:
  true when \<open>checkFile\<close> reports a file at the resolved location, and also when
  \<open>checkFile\<close> reports none and \<open>checkDir\<close>, asked next, reports a directory; false
  when both report none. As the guard is written this concerns only the empty path and
  the paths ending in a slash, whose target is the empty string.\<close>

lemma exists_on_resolved_path:
  assumes "getAbsolutePathInfo this path = Inr pathInfo"
    and "checkFile (file_of this) (absoluteBasePath pathInfo) (target pathInfo) s = (isFile, s1)"
    and "checkDir (file_of this) (absoluteBasePath pathInfo) (target pathInfo) s1 = (isDir, s2)"
  shows "(isFile = Inr True \<longrightarrow> fst (exists this path (calls, s)) = Inr True) \<and>
         (isFile = Inr False \<and> isDir = Inr True \<longrightarrow> fst (exists this path (calls, s)) = Inr True) \<and>
         (isFile = Inr False \<and> isDir = Inr False \<longrightarrow> fst (exists this path (calls, s)) = Inr False)"
  using assms by (auto simp: exists_resolved native_run)

lemma exists_on_resolved_path_example:
  "getAbsolutePathInfo demo_android ''docs/'' =
     Inr \<lparr>absoluteBasePath = ''/root/docs'', target = []\<rparr> \<and>
   fst (exists demo_android ''docs/'' ([], [(''/root/docs'', [], [7])])) = Inr True \<and>
   fst (exists demo_android ''docs/'' ([], [(''/root/docs/'', ''a.pdf'', [7])])) = Inr True \<and>
   fst (exists demo_android ''docs/'' ([], [])) = Inr False"
proof -
  let ?location = "\<lparr>absoluteBasePath = ''/root/docs'', target = []\<rparr>"
  have resolved: "getAbsolutePathInfo demo_android ''docs/'' = Inr ?location"
    by (simp add: getAbsolutePathInfo_eq demo_android_base)
  have stored: "checkFile (file_of demo_android) (absoluteBasePath ?location) (target ?location)
        [(''/root/docs'', [], [7])] = (Inr True, [(''/root/docs'', [], [7])])"
    by (simp add: demo_android_file demo_File_def demo_stored_def)
  have stored_dir: "checkDir (file_of demo_android) (absoluteBasePath ?location) (target ?location)
        [(''/root/docs'', [], [7])] = (Inr False, [(''/root/docs'', [], [7])])"
    by (simp add: demo_android_file demo_File_def)
  have inside: "checkFile (file_of demo_android) (absoluteBasePath ?location) (target ?location)
        [(''/root/docs/'', ''a.pdf'', [7])] = (Inr False, [(''/root/docs/'', ''a.pdf'', [7])])"
    by (simp add: demo_android_file demo_File_def demo_stored_def)
  have inside_dir: "checkDir (file_of demo_android) (absoluteBasePath ?location) (target ?location)
        [(''/root/docs/'', ''a.pdf'', [7])] = (Inr True, [(''/root/docs/'', ''a.pdf'', [7])])"
    by (simp add: demo_android_file demo_File_def)
  have vacant: "checkFile (file_of demo_android) (absoluteBasePath ?location) (target ?location)
        [] = (Inr False, [])"
    by (simp add: demo_android_file demo_File_def demo_stored_def)
  have vacant_dir: "checkDir (file_of demo_android) (absoluteBasePath ?location) (target ?location)
        [] = (Inr False, [])"
    by (simp add: demo_android_file demo_File_def)
  show ?thesis
    using resolved
      exists_on_resolved_path [OF resolved stored stored_dir, of "[]"]
      exists_on_resolved_path [OF resolved inside inside_dir, of "[]"]
      exists_on_resolved_path [OF resolved vacant vacant_dir, of "[]"]
    by simp
qed

lemma save_resolved:
  assumes "getAbsolutePathInfo this path = Inr pathInfo"
  shows "save this path data w =
     native (WriteFile (absoluteBasePath pathInfo) (target pathInfo) data \<lparr>replace = True\<rparr>)
       (writeFile (file_of this) (absoluteBasePath pathInfo) (target pathInfo) data
          \<lparr>replace = True\<rparr>) w"
  using assms by (simp add: save_def await_Inr)

lemma save_unresolved:
  assumes "getAbsolutePathInfo this path = Inl e"
  shows "save this path data w = (Inl e, w)"
  using assms by (simp add: save_def await_def settled_def)

lemma demo_writeFile_then_checkFile:
  "writeFile (file_of demo_android) dir name data \<lparr>replace = True\<rparr> s = (Inr entry, s') \<Longrightarrow>
   fst (checkFile (file_of demo_android) dir name s') = Inr True"
  by (auto simp: demo_android_file demo_File_def demo_stored_def)


text \<open>On the paths on which \<open>save\<close> can succeed, \<open>save\<close> and \<open>exists\<close> do fit
  together: both resolve the path to the same location, and \<open>exists\<close> asks \<open>checkFile\<close>
  there first. So if the plugin finds with \<open>checkFile\<close> what it has written with
  \<open>writeFile\<close>, a \<open>save\<close> that returned an entry is followed by an \<open>exists\<close> that
  returns true. As the guard is written, these are never the valid paths.\<close>

lemma save_then_exists:
  assumes written_is_found: "\<And>dir name s entry s'.
      writeFile (file_of this) dir name data \<lparr>replace = True\<rparr> s = (Inr entry, s') \<Longrightarrow>
      fst (checkFile (file_of this) dir name s') = Inr True"
    and saved: "save this path data w = (Inr entry, w')"
  shows "fst (exists this path w') = Inr True"
proof (cases "getAbsolutePathInfo this path")
  case (Inl e)
  with saved show ?thesis by (simp add: save_unresolved)
next
  case (Inr pathInfo)
  obtain calls s where w: "w = (calls, s)" by (cases w)
  obtain calls' s' where w': "w' = (calls', s')" by (cases w')
  from saved Inr w w'
  have "writeFile (file_of this) (absoluteBasePath pathInfo) (target pathInfo) data
          \<lparr>replace = True\<rparr> s = (Inr entry, s')"
    by (auto simp: save_resolved native_run split: prod.splits sum.splits)
  from written_is_found [OF this]
  have "fst (checkFile (file_of this) (absoluteBasePath pathInfo) (target pathInfo) s') = Inr True" .
  then show ?thesis
    unfolding w' exists_resolved [OF Inr]
    by (auto split: prod.splits sum.splits bool.splits)
qed

lemma save_then_exists_example:
  "save demo_android ''docs/'' [1, 2, 3] ([], []) =
     (Inr (FileEntry ''/root/docs/''),
      ([WriteFile ''/root/docs'' [] [1, 2, 3] \<lparr>replace = True\<rparr>],
       [(''/root/docs'', [], [1, 2, 3])])) \<and>
   fst (exists demo_android ''docs/''
          ([WriteFile ''/root/docs'' [] [1, 2, 3] \<lparr>replace = True\<rparr>],
           [(''/root/docs'', [], [1, 2, 3])])) = Inr True"
proof -
  have saved: "save demo_android ''docs/'' [1, 2, 3] ([], []) =
     (Inr (FileEntry ''/root/docs/''),
      ([WriteFile ''/root/docs'' [] [1, 2, 3] \<lparr>replace = True\<rparr>],
       [(''/root/docs'', [], [1, 2, 3])]))"
    by (simp add: save_def getAbsolutePathInfo_eq demo_android_base await_Inr native_run
          demo_android_file demo_File_def)
  from save_then_exists [OF demo_writeFile_then_checkFile saved] saved
  show ?thesis by simp
qed

section \<open>Opening a file on Android\<close>

lemma AndroidFilesystem_open_attempt_unresolved:
  "getAbsolutePathInfo this path = Inl e \<Longrightarrow>
   AndroidFilesystem_open_attempt this fileOpener path type w = (Inl e, w)"
  by (simp add: AndroidFilesystem_open_attempt_def await_def settled_def)

text \<open>Whatever leaves the body of the \<open>try\<close> is the \<open>IOError\<close> of the path guard or a
  failure of the file opener.\<close>

lemma AndroidFilesystem_open_attempt_raises:
  assumes "AndroidFilesystem_open_attempt this fileOpener path type w = (Inl e, w')"
  shows "(\<exists>m. e = IOError m) \<or> (\<exists>failure. e = NativeError failure)"
proof (cases "getAbsolutePathInfo this path")
  case (Inl d)
  with assms show ?thesis
    using getAbsolutePathInfo_raises_IOError [OF Inl]
    by (simp add: AndroidFilesystem_open_attempt_unresolved)
next
  case (Inr pathInfo)
  with assms show ?thesis
    using native_raises_NativeError
    by (fastforce simp: AndroidFilesystem_open_attempt_def await_Inr)
qed

text \<open>Claim C6. \<open>AndroidFilesystem.open\<close> raises \<open>CantOpenFileTypeException\<close> exactly
  when the error of the open attempt carries the status code 9, and raises any other
  error of the attempt unchanged. Here \<open>r\<close> is how the body of the \<open>try\<close> ends.\<close>

theorem AndroidFilesystem_open_failure_mapping:
  assumes "AndroidFilesystem_open_attempt (AndroidFilesystem f fileOpener) fileOpener path
             (case type of None \<Rightarrow> [] | Some t \<Rightarrow> t) w = (r, w')"
  shows "AndroidFilesystem_open f fileOpener path type w =
           (case r of
              Inl e \<Rightarrow> if status_of e = Num 9
                       then Inl (CantOpenFileTypeException android_unsupported_message)
                       else Inl e
            | Inr u \<Rightarrow> Inr u, w') \<and>
         ((\<exists>m. fst (AndroidFilesystem_open f fileOpener path type w) =
                 Inl (CantOpenFileTypeException m))
            \<longleftrightarrow> (\<exists>e. r = Inl e \<and> status_of e = Num 9))"
proof -
  have mapped: "AndroidFilesystem_open f fileOpener path type w =
           (case r of
              Inl e \<Rightarrow> if status_of e = Num 9
                       then Inl (CantOpenFileTypeException android_unsupported_message)
                       else Inl e
            | Inr u \<Rightarrow> Inr u, w')"
    using assms
    by (simp add: AndroidFilesystem_open_def try_catch_def settled_def split: sum.splits)
  have "(\<exists>m. fst (AndroidFilesystem_open f fileOpener path type w) =
                 Inl (CantOpenFileTypeException m))
            \<longleftrightarrow> (\<exists>e. r = Inl e \<and> status_of e = Num 9)"
  proof (cases r)
    case (Inl e)
    with assms have "(\<exists>m. e = IOError m) \<or> (\<exists>failure. e = NativeError failure)"
      using AndroidFilesystem_open_attempt_raises by blast
    with Inl show ?thesis unfolding mapped by auto
  next
    case (Inr u)
    then show ?thesis unfolding mapped by simp
  qed
  with mapped show ?thesis by blast
qed

theorem AndroidFilesystem_open_failure_mapping_witness:
  "AndroidFilesystem_open demo_File demo_fileOpener ''docs/'' None
       ([], [(''/root/docs'', [], [7])]) =
     (Inl (CantOpenFileTypeException android_unsupported_message),
      ([FileOpenerOpen ''/root/docs/'' []], [(''/root/docs'', [], [7])])) \<and>
   AndroidFilesystem_open demo_File demo_fileOpener ''docs/'' (Some ''application/pdf'') ([], []) =
     (Inl (NativeError (NativeFailure (Num 1) ''File not found'')),
      ([FileOpenerOpen ''/root/docs/'' ''application/pdf''], [])) \<and>
   AndroidFilesystem_open demo_File demo_fileOpener ''docs/'' (Some ''application/pdf'')
       ([], [(''/root/docs'', [], [7])]) =
     (Inr (), ([FileOpenerOpen ''/root/docs/'' ''application/pdf''], [(''/root/docs'', [], [7])]))"
proof -
  have base: "externalApplicationStorageDirectory demo_File = ''/root''"
    by (simp add: demo_File_def)
  have refused: "AndroidFilesystem_open_attempt (AndroidFilesystem demo_File demo_fileOpener)
        demo_fileOpener ''docs/'' (case None of None \<Rightarrow> [] | Some t \<Rightarrow> t)
        ([], [(''/root/docs'', [], [7])]) =
      (Inl (NativeError (NativeFailure (Num 9) ''Activity not found'')),
       ([FileOpenerOpen ''/root/docs/'' []], [(''/root/docs'', [], [7])]))"
    by (simp add: AndroidFilesystem_open_attempt_def getAbsolutePathInfo_eq base await_Inr
          native_run demo_fileOpener_def)
  have missing: "AndroidFilesystem_open_attempt (AndroidFilesystem demo_File demo_fileOpener)
        demo_fileOpener ''docs/'' (case Some ''application/pdf'' of None \<Rightarrow> [] | Some t \<Rightarrow> t)
        ([], []) =
      (Inl (NativeError (NativeFailure (Num 1) ''File not found'')),
       ([FileOpenerOpen ''/root/docs/'' ''application/pdf''], []))"
    by (simp add: AndroidFilesystem_open_attempt_def getAbsolutePathInfo_eq base await_Inr
          native_run demo_fileOpener_def)
  have opened: "AndroidFilesystem_open_attempt (AndroidFilesystem demo_File demo_fileOpener)
        demo_fileOpener ''docs/'' (case Some ''application/pdf'' of None \<Rightarrow> [] | Some t \<Rightarrow> t)
        ([], [(''/root/docs'', [], [7])]) =
      (Inr (), ([FileOpenerOpen ''/root/docs/'' ''application/pdf''], [(''/root/docs'', [], [7])]))"
    by (simp add: AndroidFilesystem_open_attempt_def getAbsolutePathInfo_eq base await_Inr
          native_run demo_fileOpener_def)
  show ?thesis
    using AndroidFilesystem_open_failure_mapping [OF refused]
      AndroidFilesystem_open_failure_mapping [OF missing]
      AndroidFilesystem_open_failure_mapping [OF opened]
    by simp
qed

section \<open>Opening a file on iOS\<close>

text \<open>Once \<open>getFile\<close> has found the file, the outcome of \<open>open\<close> on
  iOS is decided by the viewer's reply alone: a success callback, at once or later,
  completes it; a failure callback raises \<open>CantOpenFileTypeException\<close> with the error
  code only if it runs before the native call returns; a failure callback in a later
  turn, or no callback, leaves \<open>open\<close> without a return.\<close>

theorem IOSFilesystem_open_after_getFile:
  assumes "getFile (IOSFilesystem f) path w = (Inr entry, (calls, s))"
    and "window (toURL entry) Undefined s = (reply, s')"
  shows "IOSFilesystem_open window f path type w =
     (case reply of
        CallsBackAtOnce (SuccessCallback msg) \<Rightarrow> Some (Inr ())
      | CallsBackAtOnce (FailureCallback errorCode) \<Rightarrow>
          Some (Inl (CantOpenFileTypeException (ios_error_message errorCode)))
      | CallsBackLater (SuccessCallback msg) \<Rightarrow> Some (Inr ())
      | CallsBackLater (FailureCallback errorCode) \<Rightarrow> None
      | NoCallback \<Rightarrow> None,
      (calls @ [PreviewFileFromUrlOrPath (toURL entry) Undefined], s'))"
  using assms
  by (simp add: IOSFilesystem_open_def previewFileFromUrlOrPath_def later_turn_def
        new_Promise_def await_promise_def resolve_promise_def reject_promise_def
      split: viewer_reply.splits viewer_callback.splits)

theorem IOSFilesystem_open_after_getFile_witness:
  "IOSFilesystem_open demo_viewer demo_File ''docs//'' None
       ([], [(''/data//data/docs/'', [], [7])]) =
     (Some (Inr ()),
      ([ResolveDirectoryUrl ''/data//data/docs'',
        GetDirectory (DirectoryEntry ''/data//data/docs'') [] lookup_flags,
        GetFile (DirectoryEntry ''/data//data/docs/'') [] lookup_flags,
        PreviewFileFromUrlOrPath ''/data//data/docs//'' Undefined],
       [(''/data//data/docs/'', [], [7])]))"
proof -
  have found: "getFile (IOSFilesystem demo_File) ''docs//'' ([], [(''/data//data/docs/'', [], [7])]) =
     (Inr (FileEntry ''/data//data/docs//''),
      ([ResolveDirectoryUrl ''/data//data/docs'',
        GetDirectory (DirectoryEntry ''/data//data/docs'') [] lookup_flags,
        GetFile (DirectoryEntry ''/data//data/docs/'') [] lookup_flags],
       [(''/data//data/docs/'', [], [7])]))"
    by (simp add: getFile_def getDirectory_def getAbsolutePathInfo_eq demo_File_def
          await_def settled_def native_run)
  have reply: "demo_viewer (toURL (FileEntry ''/data//data/docs//'')) Undefined
        [(''/data//data/docs/'', [], [7])] =
      (CallsBackLater (SuccessCallback ''ok''), [(''/data//data/docs/'', [], [7])])"
    by (simp add: demo_viewer_def)
  show ?thesis
    using IOSFilesystem_open_after_getFile
      [where window = demo_viewer and type = None, OF found reply]
    by simp
qed

text \<open>Claim C7. \<open>IOSFilesystem.open\<close> should complete when the success callback of the
  document preview fires, and raise a \<open>CantOpenFileTypeException\<close> with the native error
  code to its caller when the failure callback fires. The second half fails on the code:
  the failure callback throws, but the promise was made with \<open>resolve\<close> only, so when the
  viewer reports error code 53 in a later turn the exception never reaches the promise,
  and \<open>open\<close>, having made its four native calls, neither returns nor raises.\<close>

theorem IOSFilesystem_open_failure_never_settles:
  "IOSFilesystem_open demo_viewer demo_File ''docs//'' None ([], []) =
     (None,
      ([ResolveDirectoryUrl ''/data//data/docs'',
        GetDirectory (DirectoryEntry ''/data//data/docs'') [] lookup_flags,
        GetFile (DirectoryEntry ''/data//data/docs/'') [] lookup_flags,
        PreviewFileFromUrlOrPath ''/data//data/docs//'' Undefined], []))"
  by (simp add: IOSFilesystem_open_def getFile_def getDirectory_def getAbsolutePathInfo_eq
        demo_File_def await_def settled_def native_run previewFileFromUrlOrPath_def
        demo_viewer_def later_turn_def new_Promise_def await_promise_def)

section \<open>Selecting the adapter\<close>

text \<open>Claim C8. The factory returns the Android adapter when the platform is
  \<open>android\<close>, the iOS adapter when it is \<open>ios\<close>, and raises an error for any other
  platform; there is no fallback adapter. The first conjunct reads the platform as one
  identity; the others hold for any platform service, which is asked for \<open>android\<close>
  first.\<close>

theorem CORDOVA_FILESYSTEM_FACTORY_selects:
  "CORDOVA_FILESYSTEM_FACTORY (Platform (\<lambda>name. name = identity)) f fileOpener2 =
     (if identity = ''android'' then Inr (AndroidFilesystem f fileOpener2)
      else if identity = ''ios'' then Inr (IOSFilesystem f)
      else Inl (Error no_implementation_message)) \<and>
   (platform_is platform ''android'' \<longrightarrow>
      CORDOVA_FILESYSTEM_FACTORY platform f fileOpener2 = Inr (AndroidFilesystem f fileOpener2)) \<and>
   (\<not> platform_is platform ''android'' \<and> platform_is platform ''ios'' \<longrightarrow>
      CORDOVA_FILESYSTEM_FACTORY platform f fileOpener2 = Inr (IOSFilesystem f)) \<and>
   (\<not> platform_is platform ''android'' \<and> \<not> platform_is platform ''ios'' \<longrightarrow>
      CORDOVA_FILESYSTEM_FACTORY platform f fileOpener2 = Inl (Error no_implementation_message))"
  by (simp add: CORDOVA_FILESYSTEM_FACTORY_def)

theorem CORDOVA_FILESYSTEM_FACTORY_selects_witness:
  "CORDOVA_FILESYSTEM_FACTORY (Platform (\<lambda>name. name = ''android'')) demo_File demo_fileOpener =
     Inr (AndroidFilesystem demo_File demo_fileOpener) \<and>
   CORDOVA_FILESYSTEM_FACTORY (Platform (\<lambda>name. name = ''ios'')) demo_File demo_fileOpener =
     Inr (IOSFilesystem demo_File) \<and>
   CORDOVA_FILESYSTEM_FACTORY (Platform (\<lambda>name. name = ''windows'')) demo_File demo_fileOpener =
     Inl (Error no_implementation_message)"
  using CORDOVA_FILESYSTEM_FACTORY_selects
      [of "''android''" demo_File demo_fileOpener "Platform (\<lambda>name. name = ''android'')"]
    CORDOVA_FILESYSTEM_FACTORY_selects
      [of "''ios''" demo_File demo_fileOpener "Platform (\<lambda>name. name = ''ios'')"]
    CORDOVA_FILESYSTEM_FACTORY_selects
      [of "''windows''" demo_File demo_fileOpener "Platform (\<lambda>name. name = ''windows'')"]
  by simp

section \<open>Invalid paths\<close>

lemma getFile_unresolved:
  "getAbsolutePathInfo this path = Inl e \<Longrightarrow> getFile this path w = (Inl e, w)"
  by (simp add: getFile_def await_def settled_def)

lemma open_file_unresolved:
  assumes "getAbsolutePathInfo this path = Inl e"
  shows "open_file window this path type w = (Some (Inl e), w)"
proof (cases this)
  case (AndroidFilesystem f fileOpener)
  from assms obtain m where "e = IOError m"
    using getAbsolutePathInfo_raises_IOError by blast
  with assms AndroidFilesystem show ?thesis
    by (simp add: AndroidFilesystem_open_def try_catch_def
          AndroidFilesystem_open_attempt_unresolved settled_def)
next
  case (IOSFilesystem f)
  with assms show ?thesis
    by (simp add: IOSFilesystem_open_def getFile_unresolved)
qed

text \<open>Claim C9. On a path that path resolution rejects, each of \<open>delete\<close>, \<open>exists\<close>,
  \<open>save\<close> and \<open>open\<close> raises the error of the path guard before any native call: the
  list of native calls and the device state come back as they went in.\<close>

theorem invalid_path_raises_before_native_call:
  assumes "getAbsolutePathInfo this path = Inl e"
  shows "delete this path w = (Inl e, w) \<and>
         exists this path w = (Inl e, w) \<and>
         save this path data w = (Inl e, w) \<and>
         open_file window this path type w = (Some (Inl e), w)"
  using assms
  by (simp add: delete_def exists_def save_def await_Inl open_file_unresolved, simp add: settled_def)

theorem invalid_path_raises_before_native_call_witness:
  "getAbsolutePathInfo demo_android ''a/b/c'' =
     Inl (IOError (invalid_path_message ''a/b/c'' ''c'')) \<and>
   delete demo_android ''a/b/c'' ([], [(''/root/a/b'', ''c'', [1])]) =
     (Inl (IOError (invalid_path_message ''a/b/c'' ''c'')), ([], [(''/root/a/b'', ''c'', [1])])) \<and>
   exists demo_android ''a/b/c'' ([], [(''/root/a/b'', ''c'', [1])]) =
     (Inl (IOError (invalid_path_message ''a/b/c'' ''c'')), ([], [(''/root/a/b'', ''c'', [1])])) \<and>
   save demo_android ''a/b/c'' [2] ([], [(''/root/a/b'', ''c'', [1])]) =
     (Inl (IOError (invalid_path_message ''a/b/c'' ''c'')), ([], [(''/root/a/b'', ''c'', [1])])) \<and>
   open_file demo_viewer demo_android ''a/b/c'' (Some ''application/pdf'')
       ([], [(''/root/a/b'', ''c'', [1])]) =
     (Some (Inl (IOError (invalid_path_message ''a/b/c'' ''c''))),
      ([], [(''/root/a/b'', ''c'', [1])])) \<and>
   open_file demo_viewer demo_ios ''a/b/c'' None ([], []) =
     (Some (Inl (IOError (invalid_path_message ''a/b/c'' ''c''))), ([], []))"
proof -
  have android: "getAbsolutePathInfo demo_android ''a/b/c'' =
      Inl (IOError (invalid_path_message ''a/b/c'' ''c''))"
    by (simp add: getAbsolutePathInfo_eq)
  have ios: "getAbsolutePathInfo demo_ios ''a/b/c'' =
      Inl (IOError (invalid_path_message ''a/b/c'' ''c''))"
    by (simp add: getAbsolutePathInfo_eq)
  show ?thesis
    using android
      invalid_path_raises_before_native_call
        [OF android, of "([], [(''/root/a/b'', ''c'', [1])])" "[2]" demo_viewer
           "Some ''application/pdf''"]
      invalid_path_raises_before_native_call [OF ios, of "([], [])" "[]" demo_viewer None]
    by simp
qed

section \<open>The directory that \<open>getFile\<close> looks up\<close>

lemma js_split_append:
  "js_split sep (a @ sep # b) = js_split sep a @ js_split sep b"
proof (induction a)
  case Nil
  show ?case by simp
next
  case (Cons c a)
  obtain seg segs where "js_split sep a = seg # segs"
    using js_split_not_Nil [of sep a] by (cases "js_split sep a") auto
  with Cons show ?case by simp
qed

lemma js_split_no_separator: "sep \<notin> set x \<Longrightarrow> js_split sep x = [x]"
  by (induction x) auto

lemma js_split_segments: "x \<in> set (js_split sep s) \<Longrightarrow> sep \<notin> set x"
  by (induction s arbitrary: x) (auto split: if_splits list.splits)

text \<open>Splitting what was joined from a first string and segments without a slash gives
  the segments of the first string, then the others.\<close>

lemma js_split_join:
  "(\<And>x. x \<in> set xs \<Longrightarrow> sep \<notin> set x) \<Longrightarrow>
   js_split sep (js_join [sep] (b # xs)) = js_split sep b @ xs"
proof (induction xs arbitrary: b)
  case Nil
  show ?case by simp
next
  case (Cons y ys)
  have "js_split sep (js_join [sep] (y # ys)) = js_split sep y @ ys"
    using Cons.prems by (intro Cons.IH) simp
  moreover have "js_split sep y = [y]"
    using Cons.prems by (intro js_split_no_separator) simp
  ultimately show ?case by (simp add: js_split_append)
qed

lemma split_absoluteBasePath:
  assumes "getAbsolutePathInfo this path = Inr pathInfo"
  shows "js_split (CHR ''/'') (absoluteBasePath pathInfo) =
           js_split (CHR ''/'') (getFilesystemBasePath this) @ butlast (js_split (CHR ''/'') path)"
proof -
  have joined: "absoluteBasePath pathInfo =
      js_join ''/'' (getFilesystemBasePath this # butlast (js_split (CHR ''/'') path))"
    using assms by (auto simp: getAbsolutePathInfo_eq split: if_splits)
  have "\<And>x. x \<in> set (butlast (js_split (CHR ''/'') path)) \<Longrightarrow> CHR ''/'' \<notin> set x"
    using js_split_segments in_set_butlastD by metis
  then show ?thesis unfolding joined by (rule js_split_join)
qed

lemma js_join_split: "js_join [sep] (js_split sep s) = s"
proof (induction s)
  case Nil
  show ?case by simp
next
  case (Cons c s)
  obtain seg segs where segs: "js_split sep s = seg # segs"
    using js_split_not_Nil [of sep s] by (cases "js_split sep s") auto
  with Cons show ?case by (cases segs) auto
qed

lemma butlast_Cons_same: "butlast (b # xs) = xs \<Longrightarrow> last (b # xs) = b"
  by (induction xs arbitrary: b) (auto split: if_splits)

text \<open>Unless the base directory is the empty string, the second resolution never gives
  back the base path it was handed.\<close>

lemma second_resolution_differs:
  assumes first: "getAbsolutePathInfo this path = Inr pathInfo"
    and second: "getAbsolutePathInfo this (absoluteBasePath pathInfo) = Inr dirInfo"
    and base: "getFilesystemBasePath this \<noteq> []"
  shows "absoluteBasePath dirInfo \<noteq> absoluteBasePath pathInfo"
proof
  let ?B = "js_split (CHR ''/'') (getFilesystemBasePath this)"
  let ?xs = "butlast (js_split (CHR ''/'') path)"
  assume same: "absoluteBasePath dirInfo = absoluteBasePath pathInfo"
  have split1: "js_split (CHR ''/'') (absoluteBasePath pathInfo) = ?B @ ?xs"
    by (rule split_absoluteBasePath [OF first])
  have blank: "last (?B @ ?xs) = []"
    and joined: "absoluteBasePath dirInfo =
      js_join ''/'' (getFilesystemBasePath this # butlast (?B @ ?xs))"
    using second split1
    by (auto simp: getAbsolutePathInfo_eq [of this "absoluteBasePath pathInfo"] split: if_splits)
  have "\<And>x. x \<in> set (butlast (?B @ ?xs)) \<Longrightarrow> CHR ''/'' \<notin> set x"
  proof -
    fix x assume "x \<in> set (butlast (?B @ ?xs))"
    then have "x \<in> set ?B \<or> x \<in> set (js_split (CHR ''/'') path)"
      by (auto dest!: in_set_butlastD dest: in_set_butlastD)
    then show "CHR ''/'' \<notin> set x" using js_split_segments by blast
  qed
  then have split2: "js_split (CHR ''/'') (absoluteBasePath dirInfo) = ?B @ butlast (?B @ ?xs)"
    unfolding joined by (rule js_split_join)
  from same split1 split2 have shifted: "butlast (?B @ ?xs) = ?xs" by simp
  then have "length (?B @ ?xs) - 1 = length ?xs" by (metis length_butlast)
  then have "length ?B = 1"
    using js_split_not_Nil [of "CHR ''/''" "getFilesystemBasePath this"]
    by (cases ?B) auto
  then obtain b where B: "?B = [b]" by (cases ?B) auto
  have "getFilesystemBasePath this = js_join ''/'' ?B" by (simp add: js_join_split)
  with B have b: "b = getFilesystemBasePath this" by simp
  from shifted B have "butlast (b # ?xs) = ?xs" by simp
  then have "last (b # ?xs) = b" by (rule butlast_Cons_same)
  with blank B b base show False by simp
qed

text \<open>Claim C10. \<open>getFile\<close> hands the base path it has already resolved to
  \<open>getDirectory\<close>, which resolves it once more. So when the path resolves to \<open>pathInfo\<close>,
  \<open>getFile\<close> continues with the resolution \<open>dirInfo\<close> of
  \<open>absoluteBasePath pathInfo\<close>: it stops with that resolution's error, or asks the
  plugin for the directory URL \<open>absoluteBasePath dirInfo\<close>, then for the directory
  \<open>target dirInfo\<close> in it, then for the file \<open>target pathInfo\<close>. The URL asked for
  starts with the platform base directory and carries the segments of the base
  directory a second time, and, the base directory not being the empty string, it is
  never the base path \<open>absoluteBasePath pathInfo\<close> itself.\<close>

theorem getFile_resolves_base_path_again:
  assumes "getAbsolutePathInfo this path = Inr pathInfo"
  shows "getFile this path w =
      (case getAbsolutePathInfo this (absoluteBasePath pathInfo) of
         Inl e \<Rightarrow> (Inl e, w)
       | Inr dirInfo \<Rightarrow>
           await
             (await (native (ResolveDirectoryUrl (absoluteBasePath dirInfo))
                       (resolveDirectoryUrl (file_of this) (absoluteBasePath dirInfo)))
                (\<lambda>dir. native (GetDirectory dir (target dirInfo) lookup_flags)
                          (File_getDirectory (file_of this) dir (target dirInfo) lookup_flags)))
             (\<lambda>dir. native (GetFile dir (target pathInfo) lookup_flags)
                       (File_getFile (file_of this) dir (target pathInfo) lookup_flags)) w) \<and>
    (\<forall>dirInfo. getAbsolutePathInfo this (absoluteBasePath pathInfo) = Inr dirInfo \<longrightarrow>
       absoluteBasePath dirInfo =
         js_join ''/'' (getFilesystemBasePath this #
           butlast (js_split (CHR ''/'') (getFilesystemBasePath this) @
                    butlast (js_split (CHR ''/'') path)))) \<and>
    (\<forall>dirInfo. getAbsolutePathInfo this (absoluteBasePath pathInfo) = Inr dirInfo \<and>
         getFilesystemBasePath this \<noteq> [] \<longrightarrow>
       absoluteBasePath dirInfo \<noteq> absoluteBasePath pathInfo)"
proof (intro conjI)
  show "getFile this path w =
      (case getAbsolutePathInfo this (absoluteBasePath pathInfo) of
         Inl e \<Rightarrow> (Inl e, w)
       | Inr dirInfo \<Rightarrow>
           await
             (await (native (ResolveDirectoryUrl (absoluteBasePath dirInfo))
                       (resolveDirectoryUrl (file_of this) (absoluteBasePath dirInfo)))
                (\<lambda>dir. native (GetDirectory dir (target dirInfo) lookup_flags)
                          (File_getDirectory (file_of this) dir (target dirInfo) lookup_flags)))
             (\<lambda>dir. native (GetFile dir (target pathInfo) lookup_flags)
                       (File_getFile (file_of this) dir (target pathInfo) lookup_flags)) w)"
    using assms
    by (cases "getAbsolutePathInfo this (absoluteBasePath pathInfo)")
       (simp_all add: getFile_def getDirectory_def await_Inr await_Inl, simp add: settled_def)
next
  show "\<forall>dirInfo. getAbsolutePathInfo this (absoluteBasePath pathInfo) = Inr dirInfo \<longrightarrow>
       absoluteBasePath dirInfo =
         js_join ''/'' (getFilesystemBasePath this #
           butlast (js_split (CHR ''/'') (getFilesystemBasePath this) @
                    butlast (js_split (CHR ''/'') path)))"
    using split_absoluteBasePath [OF assms]
    by (auto simp: getAbsolutePathInfo_eq [of this "absoluteBasePath pathInfo"] split: if_splits)
next
  show "\<forall>dirInfo. getAbsolutePathInfo this (absoluteBasePath pathInfo) = Inr dirInfo \<and>
         getFilesystemBasePath this \<noteq> [] \<longrightarrow>
       absoluteBasePath dirInfo \<noteq> absoluteBasePath pathInfo"
    using second_resolution_differs [OF assms] by blast
qed

theorem getFile_resolves_base_path_again_witness:
  "getAbsolutePathInfo demo_ios ''docs//'' =
     Inr \<lparr>absoluteBasePath = ''/data/docs/'', target = []\<rparr> \<and>
   getAbsolutePathInfo demo_ios ''/data/docs/'' =
     Inr \<lparr>absoluteBasePath = ''/data//data/docs'', target = []\<rparr> \<and>
   getFile demo_ios ''docs//'' ([], []) =
     (Inr (FileEntry ''/data//data/docs//''),
      ([ResolveDirectoryUrl ''/data//data/docs'',
        GetDirectory (DirectoryEntry ''/data//data/docs'') [] lookup_flags,
        GetFile (DirectoryEntry ''/data//data/docs/'') [] lookup_flags], []))"
  using getFile_resolves_base_path_again
    [of demo_ios "''docs//''" "\<lparr>absoluteBasePath = ''/data/docs/'', target = []\<rparr>" "([], [])"]
  by (simp add: getAbsolutePathInfo_eq demo_ios_base demo_ios_file demo_File_def
        await_def native_run)

section \<open>Further properties\<close>

lemma js_split_blank: "js_split sep s = [[]] \<longleftrightarrow> s = []"
  using js_split_not_Nil [of sep "tl s"] by (cases s) (auto split: list.splits)

lemma last_js_split: "last (js_split sep s) = [] \<longleftrightarrow> s = [] \<or> last s = sep"
proof (induction s)
  case Nil
  show ?case by simp
next
  case (Cons c s)
  obtain seg segs where segs: "js_split sep s = seg # segs"
    using js_split_not_Nil [of sep s] by (cases "js_split sep s") auto
  show ?case
  proof (cases "c = sep")
    case True
    with Cons segs show ?thesis by auto
  next
    case False
    show ?thesis
    proof (cases "segs = []")
      case True
      with segs Cons False js_split_blank [of sep s] show ?thesis by auto
    next
      case nonempty: False
      with segs have "s \<noteq> []" by auto
      with Cons segs False nonempty show ?thesis by auto
    qed
  qed
qed

text \<open>A path that is not empty and does not end in a slash is rejected, so \<open>save\<close> on
  it raises before anything is written.\<close>

lemma save_raises_on_valid_path:
  assumes "path \<noteq> []" and "last path \<noteq> CHR ''/''"
  shows "save this path data w =
     (Inl (IOError (invalid_path_message path (last (js_split (CHR ''/'') path)))), w)"
proof -
  have "last (js_split (CHR ''/'') path) \<noteq> []"
    using assms by (simp add: last_js_split)
  then show ?thesis
    by (simp add: save_unresolved getAbsolutePathInfo_eq)
qed

text \<open>As the guard is written, path resolution succeeds on exactly two
  kinds of path: the empty path and the paths that end in a slash.\<close>

theorem getAbsolutePathInfo_succeeds_iff:
  "(\<exists>pathInfo. getAbsolutePathInfo this path = Inr pathInfo) \<longleftrightarrow>
     path = [] \<or> last path = CHR ''/''"
  by (simp add: getAbsolutePathInfo_eq last_js_split)

text \<open>On a path that resolves, \<open>delete\<close> makes the one native call
  \<open>removeRecursively\<close> on the resolved location and ends as that call ends: its result
  is returned, its failure is raised unchanged.\<close>

theorem delete_on_resolved_path:
  assumes "getAbsolutePathInfo this path = Inr pathInfo"
    and "removeRecursively (file_of this) (absoluteBasePath pathInfo) (target pathInfo) s = (r, s')"
  shows "delete this path (calls, s) =
     (case r of Inl failure \<Rightarrow> Inl (NativeError failure) | Inr removed \<Rightarrow> Inr removed,
      (calls @ [RemoveRecursively (absoluteBasePath pathInfo) (target pathInfo)], s'))"
  using assms by (simp add: delete_def await_Inr native_run)

theorem delete_on_resolved_path_witness:
  "delete demo_android ''docs/'' ([], []) =
     (Inl (NativeError demo_not_found), ([RemoveRecursively ''/root/docs'' []], [])) \<and>
   delete demo_android ''docs/'' ([], [(''/root/docs'', [], [7])]) =
     (Inr (RemoveResult True ''/root/docs/''), ([RemoveRecursively ''/root/docs'' []], []))"
proof -
  let ?location = "\<lparr>absoluteBasePath = ''/root/docs'', target = []\<rparr>"
  have resolved: "getAbsolutePathInfo demo_android ''docs/'' = Inr ?location"
    by (simp add: getAbsolutePathInfo_eq demo_android_base)
  have absent: "removeRecursively (file_of demo_android) (absoluteBasePath ?location)
        (target ?location) [] = (Inl demo_not_found, [])"
    by (simp add: demo_android_file demo_File_def demo_stored_def)
  have present: "removeRecursively (file_of demo_android) (absoluteBasePath ?location)
        (target ?location) [(''/root/docs'', [], [7])] =
      (Inr (RemoveResult True ''/root/docs/''), [])"
    by (simp add: demo_android_file demo_File_def demo_stored_def)
  show ?thesis
    using delete_on_resolved_path [OF resolved absent, of "[]"]
      delete_on_resolved_path [OF resolved present, of "[]"]
    by simp
qed

end
